theory Spec2Isabelle
  imports Complex_Main "HOL-Library.Sublist"
begin

section \<open>Failures raised by the provider\<close>

text \<open>
  The values caught by \<^verbatim>\<open>catch (error: any)\<close> in \<^verbatim>\<open>services/geminiService.ts\<close> are
  inspected through two properties only: \<^verbatim>\<open>error.message\<close> (read with optional chaining, so
  an absent message is tolerated) and \<^verbatim>\<open>error.status\<close>. Strings are byte sequences (UTF-8).
\<close>

record error =
  message :: "string option"
  status :: "int option"

text \<open>\<^verbatim>\<open>String.prototype.includes\<close>: the needle occurs as a contiguous run of the string.\<close>

fun str_includes :: "string \<Rightarrow> string \<Rightarrow> bool" where
  "str_includes [] needle = (needle = [])"
| "str_includes (c # cs) needle = (prefix needle (c # cs) \<or> str_includes cs needle)"

text \<open>
  \<^verbatim>\<open>error.message?.includes(s)\<close>: \<^verbatim>\<open>undefined\<close> (falsy) when the message is absent.
\<close>

definition message_includes :: "error \<Rightarrow> string \<Rightarrow> bool" where
  "message_includes err needle =
     (case message err of None \<Rightarrow> False | Some m \<Rightarrow> str_includes m needle)"

definition isQuotaError :: "error \<Rightarrow> bool" where
  "isQuotaError err =
     (message_includes err ''429'' \<or>
      message_includes err ''quota'' \<or>
      message_includes err ''exhausted'' \<or>
      status err = Some 429)"

section \<open>The retry helper\<close>

text \<open>
  \<^verbatim>\<open>operation: () => Promise<T>\<close> is a call into the outside world: it reads and changes a
  world state \<open>'w\<close> and either resolves with a value (\<open>Inr\<close>) or rejects (\<open>Inl\<close>).
  \<^verbatim>\<open>retryOperation\<close> returns what the promise settles with, the log of what it did (every
  invocation of the operation with its outcome, every \<^verbatim>\<open>setTimeout\<close> wait with its delay)
  and the world it leaves behind. \<^verbatim>\<open>retries\<close> and \<^verbatim>\<open>delay\<close> are integers; the defaults
  are \<^verbatim>\<open>retries = 3\<close> and \<^verbatim>\<open>delay = 2000\<close>.
\<close>

type_synonym ('a, 'w) operation = "'w \<Rightarrow> (error + 'a) \<times> 'w"

datatype 'a event = Invoked "error + 'a" | Waited int

function retryOperation ::
  "('a, 'w) operation \<Rightarrow> int \<Rightarrow> int \<Rightarrow> 'w \<Rightarrow> (error + 'a) \<times> 'a event list \<times> 'w" where
  "retryOperation operation retries delay w =
     (case operation w of
        (Inr v, w') \<Rightarrow> (Inr v, [Invoked (Inr v)], w')
      | (Inl err, w') \<Rightarrow>
          if retries > 0 \<and> isQuotaError err
          then (case retryOperation operation (retries - 1) (delay * 2) w' of
                  (r, tr, w'') \<Rightarrow> (r, Invoked (Inl err) # Waited delay # tr, w''))
          else (Inl err, [Invoked (Inl err)], w'))"
  by pat_completeness auto
termination
  by (relation "measure (\<lambda>(operation, retries, delay, w). nat retries)") auto

declare retryOperation.simps [simp del]

text \<open>What the log holds: the delays waited, in order, and the number of invocations.\<close>

fun waits :: "'a event list \<Rightarrow> int list" where
  "waits [] = []"
| "waits (Waited d # tr) = d # waits tr"
| "waits (Invoked r # tr) = waits tr"

fun invocations :: "'a event list \<Rightarrow> nat" where
  "invocations [] = 0"
| "invocations (Invoked r # tr) = Suc (invocations tr)"
| "invocations (Waited d # tr) = invocations tr"

text \<open>The failures that were retried: those followed by a wait.\<close>

fun retried :: "'a event list \<Rightarrow> error list" where
  "retried (Invoked (Inl err) # Waited d # tr) = err # retried tr"
| "retried (e # tr) = retried tr"
| "retried [] = []"

text \<open>The delays of \<open>n\<close> successive waits that start at \<open>delay\<close> and double each time.\<close>

fun backoff :: "int \<Rightarrow> nat \<Rightarrow> int list" where
  "backoff delay 0 = []"
| "backoff delay (Suc n) = delay # backoff (delay * 2) n"

subsection \<open>Operations that fail a number of times\<close>

text \<open>
  \<open>worldAfter operation n w\<close> is the world after \<open>n\<close> invocations, \<open>outcomeAt operation n w\<close>
  what the invocation after them settles with. \<open>failsThenSucceeds operation k w v\<close>: from
  \<open>w\<close>, the operation rejects with a quota error exactly \<open>k\<close> times and then resolves with
  \<open>v\<close>. \<open>failsFirst operation n w\<close>: its first \<open>n\<close> invocations reject with a quota error.
\<close>

fun worldAfter :: "('a, 'w) operation \<Rightarrow> nat \<Rightarrow> 'w \<Rightarrow> 'w" where
  "worldAfter operation 0 w = w"
| "worldAfter operation (Suc n) w = worldAfter operation n (snd (operation w))"

definition outcomeAt :: "('a, 'w) operation \<Rightarrow> nat \<Rightarrow> 'w \<Rightarrow> error + 'a" where
  "outcomeAt operation n w = fst (operation (worldAfter operation n w))"

fun failsThenSucceeds :: "('a, 'w) operation \<Rightarrow> nat \<Rightarrow> 'w \<Rightarrow> 'a \<Rightarrow> bool" where
  "failsThenSucceeds operation 0 w v = (fst (operation w) = Inr v)"
| "failsThenSucceeds operation (Suc k) w v =
     (case fst (operation w) of
        Inl err \<Rightarrow> isQuotaError err \<and> failsThenSucceeds operation k (snd (operation w)) v
      | Inr u \<Rightarrow> False)"

fun failsFirst :: "('a, 'w) operation \<Rightarrow> nat \<Rightarrow> 'w \<Rightarrow> bool" where
  "failsFirst operation 0 w = True"
| "failsFirst operation (Suc n) w =
     (case fst (operation w) of
        Inl err \<Rightarrow> isQuotaError err \<and> failsFirst operation n (snd (operation w))
      | Inr u \<Rightarrow> False)"

text \<open>
  A scripted provider for examples: the world is the number of calls made so far; the
  first \<open>n\<close> calls reject with a quota message, every later call resolves with \<open>''ok''\<close>.
\<close>

definition quotaError :: error where
  "quotaError = \<lparr>message = Some ''You exceeded your current quota'', status = None\<rparr>"

definition failsTimes :: "nat \<Rightarrow> (string, nat) operation" where
  "failsTimes n calls = (if calls < n then Inl quotaError else Inr ''ok'', Suc calls)"

section \<open>JavaScript numbers\<close>






















section \<open>Box capture\<close>

text \<open>
  \<^verbatim>\<open>components/PDFViewer.tsx\<close>, \<^verbatim>\<open>InteractivePage\<close>. What a capture hands to
  \<^verbatim>\<open>onSelection\<close> is a \<^verbatim>\<open>SelectionData\<close> (\<^verbatim>\<open>types.ts\<close>); the fields \<^verbatim>\<open>type\<close> and \<^verbatim>\<open>id\<close>
  carry a suffix here.
\<close>

datatype selection_type = Image_sel | Text_sel

record SelectionData =
  type_sel :: selection_type
  content :: string
  id_sel :: int

datatype capture_mode = TextMode | BoxMode























section \<open>The provider services\<close>

text \<open>
  \<^verbatim>\<open>services/geminiService.ts\<close>. The provider is reached through
  \<^verbatim>\<open>ai.models.generateContent\<close>, here an operation on the world that depends on the
  request. Of the response only \<^verbatim>\<open>response.text\<close> is read, which may be absent. Values
  of type \<^verbatim>\<open>any\<close>, such as the result of \<^verbatim>\<open>JSON.parse\<close>, are \<open>jsval\<close>s (a number
  is a finite double, given by its value; nothing computes with it).
  (The second revision of the file, with \<^verbatim>\<open>getApiKey\<close>, differs in how the key is found
  and in the text of the missing-key message.)
\<close>

datatype jsval =
  JUndefined | JNull | JBool bool | JNum real | JStr string
  | JArr "jsval list" | JObj "(string \<times> jsval) list"

record response =
  text_resp :: "string option"

datatype request = Translate string | AnalyzeImage string | Explain string

type_synonym 'w provider = "request \<Rightarrow> (response, 'w) operation"

subsection \<open>cleanJson\<close>

text \<open>
  \<^verbatim>\<open>text.replace(/```json\n?|\n?```/g, '')\<close>: scanning from the left, at each position the
  first alternative is tried before the second; a match is dropped and the scan goes on
  behind it, any other character is kept.
\<close>

fun stripFences :: "string \<Rightarrow> string" where
  "stripFences [] = []"
| "stripFences (c # cs) =
     (if prefix ''```json\<newline>'' (c # cs) then stripFences (drop 7 cs)
      else if prefix ''```json'' (c # cs) then stripFences (drop 6 cs)
      else if prefix ''\<newline>```'' (c # cs) then stripFences (drop 3 cs)
      else if prefix ''```'' (c # cs) then stripFences (drop 2 cs)
      else c # stripFences cs)"

text \<open>
  \<^verbatim>\<open>String.prototype.trim\<close> removes white space and line terminators from both ends.
  These are their UTF-8 encodings: U+0009 to U+000D, U+0020, U+00A0, U+1680, U+2000 to
  U+200A, U+2028, U+2029, U+202F, U+205F, U+3000 and U+FEFF.
\<close>

definition whiteSpace :: "string list" where
  "whiteSpace =
     [[CHR 0x09], [CHR 0x0A], [CHR 0x0B], [CHR 0x0C], [CHR 0x0D], [CHR 0x20],
      [CHR 0xC2, CHR 0xA0], [CHR 0xE1, CHR 0x9A, CHR 0x80],
      [CHR 0xE2, CHR 0x80, CHR 0x80], [CHR 0xE2, CHR 0x80, CHR 0x81],
      [CHR 0xE2, CHR 0x80, CHR 0x82], [CHR 0xE2, CHR 0x80, CHR 0x83],
      [CHR 0xE2, CHR 0x80, CHR 0x84], [CHR 0xE2, CHR 0x80, CHR 0x85],
      [CHR 0xE2, CHR 0x80, CHR 0x86], [CHR 0xE2, CHR 0x80, CHR 0x87],
      [CHR 0xE2, CHR 0x80, CHR 0x88], [CHR 0xE2, CHR 0x80, CHR 0x89],
      [CHR 0xE2, CHR 0x80, CHR 0x8A], [CHR 0xE2, CHR 0x80, CHR 0xA8],
      [CHR 0xE2, CHR 0x80, CHR 0xA9], [CHR 0xE2, CHR 0x80, CHR 0xAF],
      [CHR 0xE2, CHR 0x81, CHR 0x9F], [CHR 0xE3, CHR 0x80, CHR 0x80],
      [CHR 0xEF, CHR 0xBB, CHR 0xBF]]"

function dropLeading :: "string list \<Rightarrow> string \<Rightarrow> string" where
  "dropLeading toks s =
     (case find (\<lambda>t. t \<noteq> [] \<and> prefix t s) toks of
        None \<Rightarrow> s
      | Some t \<Rightarrow> dropLeading toks (drop (length t) s))"
  by pat_completeness auto
termination
proof (relation "measure (\<lambda>(toks, s). length s)")
  show "wf (measure (\<lambda>(toks, s). length s))" by simp
next
  fix toks :: "string list" and s t :: string
  assume "find (\<lambda>t. t \<noteq> [] \<and> prefix t s) toks = Some t"
  then have "t \<noteq> []" and "prefix t s" by (auto simp: find_Some_iff)
  then have "0 < length t" and "length t \<le> length s" by (auto simp: prefix_length_le)
  then have "length s - length t < length s" by arith
  then show "((toks, drop (length t) s), (toks, s)) \<in> measure (\<lambda>(toks, s). length s)"
    by simp
qed

declare dropLeading.simps [simp del]

definition trim :: "string \<Rightarrow> string" where
  "trim s = dropLeading whiteSpace (rev (dropLeading (map rev whiteSpace) (rev s)))"

definition cleanJson :: "string \<Rightarrow> string" where
  "cleanJson t = trim (stripFences t)"

subsection \<open>translateText and analyzeImageRegion\<close>

text \<open>
  Both throw before any call when the API key is empty; otherwise they run the provider
  call through \<^verbatim>\<open>retryOperation\<close> with its default parameters.
\<close>

definition apiKeyMissing :: error where
  "apiKeyMissing = \<lparr>message = Some ''API Key missing'', status = None\<rparr>"

text \<open>\<^verbatim>\<open>response.text || "Translation failed."\<close>: an absent or empty text is falsy.\<close>

definition translateOperation :: "'w provider \<Rightarrow> string \<Rightarrow> (string, 'w) operation" where
  "translateOperation generateContent txt w =
     (case generateContent (Translate txt) w of
        (Inl err, w') \<Rightarrow> (Inl err, w')
      | (Inr resp, w') \<Rightarrow>
          (Inr (case text_resp resp of
                  None \<Rightarrow> ''Translation failed.''
                | Some t \<Rightarrow> if t = [] then ''Translation failed.'' else t), w'))"

definition translateText ::
  "string \<Rightarrow> 'w provider \<Rightarrow> string \<Rightarrow> 'w \<Rightarrow> (error + string) \<times> string event list \<times> 'w" where
  "translateText API_KEY generateContent txt w =
     (if API_KEY = [] then (Inl apiKeyMissing, [], w)
      else retryOperation (translateOperation generateContent txt) 3 2000 w)"

text \<open>
  \<^verbatim>\<open>base64Image.replace(/^data:image\/\w+;base64,/, "")\<close>: the data URL prefix is removed
  when the string starts with one.
\<close>

definition wordChar :: "char \<Rightarrow> bool" where
  "wordChar c =
     (let n = (of_char c :: nat)
      in (97 \<le> n \<and> n \<le> 122) \<or> (65 \<le> n \<and> n \<le> 90) \<or> (48 \<le> n \<and> n \<le> 57) \<or> n = 95)"

definition stripDataUrlPrefix :: "string \<Rightarrow> string" where
  "stripDataUrlPrefix s =
     (if prefix ''data:image/'' s
      then let r = drop 11 s; subtype = takeWhile wordChar r; r' = dropWhile wordChar r
           in if subtype \<noteq> [] \<and> prefix '';base64,'' r' then drop 8 r' else s
      else s)"

definition noResponse :: error where
  "noResponse = \<lparr>message = Some ''No response from model'', status = None\<rparr>"

definition rawOcrOutput :: "string \<Rightarrow> jsval" where
  "rawOcrOutput t =
     JObj [(''originalText'', JStr ''OCR Output (Raw)''), (''translatedText'', JStr t)]"

text \<open>
  \<^verbatim>\<open>JSON.parse\<close> is a parameter: \<open>None\<close> when it throws. Whatever value it returns is
  returned as the analysis; only a thrown parse error leads to the raw fallback.
\<close>

definition analyzeOperation ::
  "(string \<Rightarrow> jsval option) \<Rightarrow> 'w provider \<Rightarrow> string \<Rightarrow> (jsval, 'w) operation" where
  "analyzeOperation JSON_parse generateContent base64Data w =
     (case generateContent (AnalyzeImage base64Data) w of
        (Inl err, w') \<Rightarrow> (Inl err, w')
      | (Inr resp, w') \<Rightarrow>
          (case text_resp resp of
             None \<Rightarrow> (Inl noResponse, w')
           | Some t \<Rightarrow>
               if t = [] then (Inl noResponse, w')
               else (case JSON_parse (cleanJson t) of
                       Some v \<Rightarrow> (Inr v, w')
                     | None \<Rightarrow> (Inr (rawOcrOutput t), w'))))"

definition analyzeImageRegion ::
  "(string \<Rightarrow> jsval option) \<Rightarrow> string \<Rightarrow> 'w provider \<Rightarrow> string \<Rightarrow> 'w \<Rightarrow>
     (error + jsval) \<times> jsval event list \<times> 'w" where
  "analyzeImageRegion JSON_parse API_KEY generateContent base64Image w =
     (if API_KEY = [] then (Inl apiKeyMissing, [], w)
      else retryOperation
             (analyzeOperation JSON_parse generateContent (stripDataUrlPrefix base64Image))
             3 2000 w)"

section \<open>The translation panel\<close>

text \<open>
  \<^verbatim>\<open>components/TranslationPanel.tsx\<close>. A history entry is a \<^verbatim>\<open>TranslationResult\<close>
  (\<^verbatim>\<open>types.ts\<close>; \<^verbatim>\<open>id\<close> and \<^verbatim>\<open>type\<close> carry a suffix). The two text fields are declared
  as strings, but the image path stores whatever \<^verbatim>\<open>JSON.parse\<close> delivered, so they are
  \<open>jsval\<close>s here.
\<close>

record SearchSource =
  title :: string
  uri :: string

record TranslationResult =
  id_res :: int
  originalText :: jsval
  translatedText :: jsval
  type_res :: selection_type
  imageUrl :: "string option"
  explanation :: "string option"
  searchSources :: "SearchSource list option"
  timestamp :: int

record panel_state =
  history :: "TranslationResult list"
  loading :: bool
  activeId :: "int option"
  deepDiveLoadingId :: "int option"

text \<open>
  The three updates of the history by id are all of the form
  \<^verbatim>\<open>prev.map(item => item.id === newId ? {...item, ...} : item)\<close>.
\<close>

definition updateById ::
  "int \<Rightarrow> (TranslationResult \<Rightarrow> TranslationResult) \<Rightarrow> TranslationResult list \<Rightarrow> TranslationResult list" where
  "updateById newId upd prev = map (\<lambda>item. if id_res item = newId then upd item else item) prev"

subsection \<open>processNewSelection, step by step\<close>

text \<open>The placeholder entry; \<open>ts\<close> is \<^verbatim>\<open>Date.now()\<close>.\<close>

definition newEntry :: "SelectionData \<Rightarrow> int \<Rightarrow> TranslationResult" where
  "newEntry selectionData ts =
     \<lparr>id_res = id_sel selectionData,
      originalText =
        JStr (if type_sel selectionData = Text_sel then content selectionData
              else ''Reading text from image...''),
      translatedText = JStr '''',
      type_res = type_sel selectionData,
      imageUrl = (if type_sel selectionData = Image_sel then Some (content selectionData) else None),
      explanation = None,
      searchSources = None,
      timestamp = ts\<rparr>"

text \<open>
  What runs before the first \<^verbatim>\<open>await\<close>: the id becomes the active one, the loading flag
  is set and the placeholder is put on top of the history.
\<close>

definition arrive :: "SelectionData \<Rightarrow> int \<Rightarrow> panel_state \<Rightarrow> panel_state" where
  "arrive selectionData ts st =
     st\<lparr>activeId := Some (id_sel selectionData),
        loading := True,
        history := newEntry selectionData ts # history st\<rparr>"

text \<open>
  Reading a property of a parsed value: \<^verbatim>\<open>null\<close> and \<^verbatim>\<open>undefined\<close> throw a
  \<^verbatim>\<open>TypeError\<close> (its message is the engine's; this is V8's), an object yields the value
  or \<^verbatim>\<open>undefined\<close> (the keys of a parsed object are distinct), and the other values have
  no such property.
\<close>

definition typeError :: "string \<Rightarrow> string \<Rightarrow> error" where
  "typeError what k =
     \<lparr>message = Some (''Cannot read properties of '' @ what @ '' (reading '' @ [CHR 0x27] @ k
                        @ [CHR 0x27] @ '')''),
      status = None\<rparr>"

fun getProp :: "jsval \<Rightarrow> string \<Rightarrow> error + jsval" where
  "getProp JNull k = Inl (typeError ''null'' k)"
| "getProp JUndefined k = Inl (typeError ''undefined'' k)"
| "getProp (JObj props) k = Inr (case map_of props k of None \<Rightarrow> JUndefined | Some v \<Rightarrow> v)"
| "getProp v k = Inr JUndefined"

text \<open>
  The body of the \<^verbatim>\<open>try\<close>: the provider call for the kind of selection. It settles with
  \<^verbatim>\<open>(resultOriginal, resultTranslated)\<close> or with what was thrown, and leaves the world
  and the log of the retry helper.
\<close>

definition callProvider ::
  "(string \<Rightarrow> jsval option) \<Rightarrow> string \<Rightarrow> 'w provider \<Rightarrow> SelectionData \<Rightarrow> 'w \<Rightarrow>
     (error + jsval \<times> jsval) \<times> int list \<times> 'w" where
  "callProvider JSON_parse API_KEY generateContent selectionData w =
     (if type_sel selectionData = Image_sel
      then (case analyzeImageRegion JSON_parse API_KEY generateContent (content selectionData) w of
              (Inl err, tr, w') \<Rightarrow> (Inl err, waits tr, w')
            | (Inr analysis, tr, w') \<Rightarrow>
                (case getProp analysis ''originalText'' of
                   Inl err \<Rightarrow> (Inl err, waits tr, w')
                 | Inr resultOriginal \<Rightarrow>
                     (case getProp analysis ''translatedText'' of
                        Inl err \<Rightarrow> (Inl err, waits tr, w')
                      | Inr resultTranslated \<Rightarrow>
                          (Inr (resultOriginal, resultTranslated), waits tr, w'))))
      else (case translateText API_KEY generateContent (content selectionData) w of
              (Inl err, tr, w') \<Rightarrow> (Inl err, waits tr, w')
            | (Inr translated, tr, w') \<Rightarrow>
                (Inr (JStr (content selectionData), JStr translated), waits tr, w')))"

text \<open>The update after a successful call, and \<^verbatim>\<open>finally\<close>.\<close>

definition succeed :: "int \<Rightarrow> jsval \<Rightarrow> jsval \<Rightarrow> panel_state \<Rightarrow> panel_state" where
  "succeed newId resultOriginal resultTranslated st =
     st\<lparr>history :=
          updateById newId
            (\<lambda>item. item\<lparr>originalText := resultOriginal, translatedText := resultTranslated\<rparr>)
            (history st),
        loading := False\<rparr>"

text \<open>The \<^verbatim>\<open>catch\<close> block: the message shown, the update, and \<^verbatim>\<open>finally\<close>.\<close>

definition errorMessage :: "error \<Rightarrow> string" where
  "errorMessage e =
     (if message_includes e ''429'' \<or> message_includes e ''quota'' \<or> message_includes e ''exhausted''
      then ''Usage limit reached. Please wait a moment and try again.''
      else ''Translation failed. Please try again.'')"

definition fail :: "int \<Rightarrow> error \<Rightarrow> panel_state \<Rightarrow> panel_state" where
  "fail newId e st =
     st\<lparr>history :=
          updateById newId (\<lambda>item. item\<lparr>translatedText := JStr (errorMessage e)\<rparr>) (history st),
        loading := False\<rparr>"

text \<open>One whole run of \<^verbatim>\<open>processNewSelection\<close>, when nothing else happens in between.\<close>

definition processNewSelection ::
  "(string \<Rightarrow> jsval option) \<Rightarrow> string \<Rightarrow> 'w provider \<Rightarrow> SelectionData \<Rightarrow> int \<Rightarrow>
     panel_state \<times> 'w \<Rightarrow> panel_state \<times> int list \<times> 'w" where
  "processNewSelection JSON_parse API_KEY generateContent selectionData ts sw =
     (let newId = id_sel selectionData;
          st1 = arrive selectionData ts (fst sw)
      in case callProvider JSON_parse API_KEY generateContent selectionData (snd sw) of
           (Inr (resultOriginal, resultTranslated), ws, w') \<Rightarrow>
             (succeed newId resultOriginal resultTranslated st1, ws, w')
         | (Inl e, ws, w') \<Rightarrow> (fail newId e st1, ws, w'))"

text \<open>\<^verbatim>\<open>handleDeepDive\<close>: the update after \<^verbatim>\<open>explainWithSearch\<close> resolved, and \<^verbatim>\<open>finally\<close>.\<close>

definition deepDived :: "int \<Rightarrow> string \<Rightarrow> SearchSource list \<Rightarrow> panel_state \<Rightarrow> panel_state" where
  "deepDived i expl sources st =
     st\<lparr>history :=
          updateById i (\<lambda>item. item\<lparr>explanation := Some expl, searchSources := Some sources\<rparr>)
            (history st),
        deepDiveLoadingId := None\<rparr>"

subsection \<open>The synchronous part of a run\<close>

text \<open>
  \<^verbatim>\<open>processNewSelection\<close> up to its first suspension, as the sequence of what it does. A
  state setter only queues its update: React applies the queue when it renders next,
  after this run has returned. The service is called in the same run, and unless the
  API key is missing it calls \<^verbatim>\<open>ai.models.generateContent\<close> before it suspends
  (\<^verbatim>\<open>retryOperation\<close> invokes the operation at once).
\<close>

datatype sync_step =
  SetActiveId int
  | SetLoading bool
  | SetHistory TranslationResult
  | CallProvider request

definition requestOf :: "SelectionData \<Rightarrow> request" where
  "requestOf selectionData =
     (if type_sel selectionData = Image_sel
      then AnalyzeImage (stripDataUrlPrefix (content selectionData))
      else Translate (content selectionData))"

definition syncSteps :: "string \<Rightarrow> SelectionData \<Rightarrow> int \<Rightarrow> sync_step list" where
  "syncSteps API_KEY selectionData ts =
     [SetActiveId (id_sel selectionData), SetLoading True, SetHistory (newEntry selectionData ts)] @
     (if API_KEY = [] then [] else [CallProvider (requestOf selectionData)])"

text \<open>
  What a queued step does to the state when React applies it:
  \<^verbatim>\<open>setHistory(prev => [newEntry, ...prev])\<close> puts the entry on top of the history it
  finds. A provider call is no state update.
\<close>

fun applyQueued :: "sync_step \<Rightarrow> panel_state \<Rightarrow> panel_state" where
  "applyQueued (SetActiveId newId) st = st\<lparr>activeId := Some newId\<rparr>"
| "applyQueued (SetLoading b) st = st\<lparr>loading := b\<rparr>"
| "applyQueued (SetHistory entry) st = st\<lparr>history := entry # history st\<rparr>"
| "applyQueued (CallProvider req) st = st"

definition commit :: "sync_step list \<Rightarrow> panel_state \<Rightarrow> panel_state" where
  "commit steps st = foldl (\<lambda>s q. applyQueued q s) st steps"

text \<open>
  The component while a run executes: the state of its last render, the updates queued
  since, and the provider calls made, each with the history and the queue as they were
  at the time of the call. A state setter appends to the queue; rendering applies the
  queue to the state.
\<close>

record render_state =
  shown :: panel_state
  queue :: "sync_step list"
  callsMade :: "(request \<times> TranslationResult list \<times> sync_step list) list"

fun doStep :: "sync_step \<Rightarrow> render_state \<Rightarrow> render_state" where
  "doStep (CallProvider req) r = r\<lparr>callsMade := callsMade r @ [(req, history (shown r), queue r)]\<rparr>"
| "doStep q r = r\<lparr>queue := queue r @ [q]\<rparr>"

definition runSync :: "sync_step list \<Rightarrow> render_state \<Rightarrow> render_state" where
  "runSync steps r = foldl (\<lambda>r q. doStep q r) r steps"

definition rerender :: "render_state \<Rightarrow> render_state" where
  "rerender r = r\<lparr>shown := commit (queue r) (shown r), queue := []\<rparr>"

definition rendered :: "panel_state \<Rightarrow> render_state" where
  "rendered st = \<lparr>shown = st, queue = [], callsMade = []\<rparr>"

subsection \<open>Runs that overlap\<close>

text \<open>
  Several runs may be in flight: between the arrival of a selection and the update with
  its result, other selections arrive and other runs settle. The state changes of the
  panel are then a sequence of these events, in the order in which they take effect.
\<close>

datatype pipeline_event =
  Arrived SelectionData int
  | Succeeded int jsval jsval
  | Failed int error
  | DeepDived int string "SearchSource list"

fun applyEvent :: "pipeline_event \<Rightarrow> panel_state \<Rightarrow> panel_state" where
  "applyEvent (Arrived selectionData ts) st = arrive selectionData ts st"
| "applyEvent (Succeeded newId resultOriginal resultTranslated) st =
     succeed newId resultOriginal resultTranslated st"
| "applyEvent (Failed newId e) st = fail newId e st"
| "applyEvent (DeepDived i expl sources) st = deepDived i expl sources st"

fun runPipeline :: "pipeline_event list \<Rightarrow> panel_state \<Rightarrow> panel_state" where
  "runPipeline [] st = st"
| "runPipeline (ev # evs) st = runPipeline evs (applyEvent ev st)"

text \<open>The ids of the selections that arrive, in order of arrival.\<close>

fun arrivedIds :: "pipeline_event list \<Rightarrow> int list" where
  "arrivedIds [] = []"
| "arrivedIds (Arrived selectionData ts # evs) = id_sel selectionData # arrivedIds evs"
| "arrivedIds (ev # evs) = arrivedIds evs"

fun isArrival :: "pipeline_event \<Rightarrow> bool" where
  "isArrival (Arrived selectionData ts) = True"
| "isArrival ev = False"

text \<open>The id an event is about.\<close>

fun eventId :: "pipeline_event \<Rightarrow> int" where
  "eventId (Arrived selectionData ts) = id_sel selectionData"
| "eventId (Succeeded newId resultOriginal resultTranslated) = newId"
| "eventId (Failed newId e) = newId"
| "eventId (DeepDived i expl sources) = i"

definition emptyPanel :: panel_state where
  "emptyPanel = \<lparr>history = [], loading = False, activeId = None, deepDiveLoadingId = None\<rparr>"

section \<open>The live session\<close>

text \<open>
  \<^verbatim>\<open>class LiveSession\<close> of \<^verbatim>\<open>services/geminiService.ts\<close>. \<^verbatim>\<open>session\<close> is the handle that
  \<^verbatim>\<open>ai.live.connect\<close> resolved with (\<open>None\<close> while it is undefined or null).
  \<^verbatim>\<open>statusChanges\<close> are the arguments of the calls of \<^verbatim>\<open>onStatusChange\<close>, oldest first, and
  \<^verbatim>\<open>connectCalls\<close> counts the calls of \<^verbatim>\<open>ai.live.connect\<close> made for this controller: the
  sessions it asked the provider to open.
\<close>

record LiveSession =
  session :: "nat option"
  statusChanges :: "string list"
  connectCalls :: nat

definition newLiveSession :: LiveSession where
  "newLiveSession = \<lparr>session = None, statusChanges = [], connectCalls = 0\<rparr>"

text \<open>
  \<^verbatim>\<open>connect()\<close> up to its \<^verbatim>\<open>await\<close>: the status is reported and \<^verbatim>\<open>ai.live.connect\<close> is
  called. No state is tested before. (The second revision reports
  \<^verbatim>\<open>Error: Missing API Key\<close> and returns when no key is found; it tests nothing else.)
\<close>

definition connect_called :: "LiveSession \<Rightarrow> LiveSession" where
  "connect_called ls =
     ls\<lparr>statusChanges := statusChanges ls @ [''Connecting...''],
        connectCalls := Suc (connectCalls ls)\<rparr>"

text \<open>The continuation of \<^verbatim>\<open>connect()\<close> when the promise resolves, and when it rejects.\<close>

definition connect_resolved :: "nat \<Rightarrow> LiveSession \<Rightarrow> LiveSession" where
  "connect_resolved handle ls =
     ls\<lparr>session := Some handle, statusChanges := statusChanges ls @ [''Connected'']\<rparr>"

definition connect_rejected :: "LiveSession \<Rightarrow> LiveSession" where
  "connect_rejected ls = ls\<lparr>statusChanges := statusChanges ls @ [''Connection Failed'']\<rparr>"

definition disconnect :: "LiveSession \<Rightarrow> LiveSession" where
  "disconnect ls = ls\<lparr>session := None, statusChanges := statusChanges ls @ [''Disconnected'']\<rparr>"

datatype session_event = ConnectCalled | ConnectResolved nat | ConnectRejected | DisconnectCalled

fun sessionStep :: "session_event \<Rightarrow> LiveSession \<Rightarrow> LiveSession" where
  "sessionStep ConnectCalled ls = connect_called ls"
| "sessionStep (ConnectResolved handle) ls = connect_resolved handle ls"
| "sessionStep ConnectRejected ls = connect_rejected ls"
| "sessionStep DisconnectCalled ls = disconnect ls"

fun runSession :: "session_event list \<Rightarrow> LiveSession \<Rightarrow> LiveSession" where
  "runSession [] ls = ls"
| "runSession (ev # evs) ls = runSession evs (sessionStep ev ls)"

subsection \<open>The assistant component\<close>

text \<open>
  \<^verbatim>\<open>components/LiveAssistant.tsx\<close>, the only caller of \<^verbatim>\<open>connect()\<close>. The controllers it
  creates live on in \<open>controllers\<close>, where a pending promise can still reach them;
  \<^verbatim>\<open>liveSessionRef.current\<close> is the index of the one it holds. Every controller reports
  its status through the callback that sets \<^verbatim>\<open>status\<close> and \<^verbatim>\<open>isConnected\<close>.
\<close>

record assistant =
  status_ui :: string
  isConnected :: bool
  liveSessionRef :: "nat option"
  controllers :: "LiveSession list"

definition initialAssistant :: assistant where
  "initialAssistant =
     \<lparr>status_ui = ''Idle'', isConnected = False, liveSessionRef = None, controllers = []\<rparr>"

definition onStatusChange :: "string \<Rightarrow> assistant \<Rightarrow> assistant" where
  "onStatusChange s a = a\<lparr>status_ui := s, isConnected := (s = ''Connected'')\<rparr>"

text \<open>The effect for a value of \<^verbatim>\<open>isOpen\<close>, and the cleanup it returned.\<close>

definition effectRun :: "bool \<Rightarrow> assistant \<Rightarrow> assistant" where
  "effectRun isOpen a =
     (if isOpen \<and> liveSessionRef a = None
      then onStatusChange ''Connecting...''
             (a\<lparr>liveSessionRef := Some (length (controllers a)),
                controllers := controllers a @ [connect_called newLiveSession]\<rparr>)
      else a)"

definition cleanupRun :: "bool \<Rightarrow> assistant \<Rightarrow> assistant" where
  "cleanupRun isOpen a =
     (case liveSessionRef a of
        None \<Rightarrow> a
      | Some i \<Rightarrow>
          if \<not> isOpen
          then a\<lparr>controllers := (controllers a)[i := disconnect (controllers a ! i)],
                 liveSessionRef := None, isConnected := False, status_ui := ''Idle''\<rparr>
          else a)"

text \<open>The promise of controller \<open>i\<close> settles.\<close>

definition liveResolved :: "nat \<Rightarrow> nat \<Rightarrow> assistant \<Rightarrow> assistant" where
  "liveResolved i handle a =
     (if i < length (controllers a)
      then onStatusChange ''Connected''
             (a\<lparr>controllers := (controllers a)[i := connect_resolved handle (controllers a ! i)]\<rparr>)
      else a)"

definition liveRejected :: "nat \<Rightarrow> assistant \<Rightarrow> assistant" where
  "liveRejected i a =
     (if i < length (controllers a)
      then onStatusChange ''Connection Failed''
             (a\<lparr>controllers := (controllers a)[i := connect_rejected (controllers a ! i)]\<rparr>)
      else a)"

datatype assistant_event =
  EffectRun bool | CleanupRun bool | LiveResolved nat nat | LiveRejected nat

fun assistantStep :: "assistant_event \<Rightarrow> assistant \<Rightarrow> assistant" where
  "assistantStep (EffectRun isOpen) a = effectRun isOpen a"
| "assistantStep (CleanupRun isOpen) a = cleanupRun isOpen a"
| "assistantStep (LiveResolved i handle) a = liveResolved i handle a"
| "assistantStep (LiveRejected i) a = liveRejected i a"

text \<open>The controller held, if any, is one of those created.\<close>

definition refValid :: "assistant \<Rightarrow> bool" where
  "refValid a = (case liveSessionRef a of None \<Rightarrow> True | Some i \<Rightarrow> i < length (controllers a))"

fun runAssistant :: "assistant_event list \<Rightarrow> assistant \<Rightarrow> assistant" where
  "runAssistant [] a = a"
| "runAssistant (ev # evs) a = runAssistant evs (assistantStep ev a)"

section \<open>Example inputs\<close>

definition badRequest :: error where
  "badRequest = \<lparr>message = Some ''API key not valid'', status = Some 400\<rparr>"

text \<open>A provider that rejects every call with the same failure.\<close>

definition alwaysFails :: "error \<Rightarrow> ('a, nat) operation" where
  "alwaysFails err calls = (Inl err, Suc calls)"

text \<open>A provider that resolves every call with the same response.\<close>

definition alwaysAnswers :: "response \<Rightarrow> nat provider" where
  "alwaysAnswers resp req calls = (Inr resp, Suc calls)"

text \<open>
  \<^verbatim>\<open>JSON.parse\<close> on five texts, for examples; every other text is rejected here (the
  real parser accepts more, and agrees on these).
\<close>

definition JSON_parse_atoms :: "string \<Rightarrow> jsval option" where
  "JSON_parse_atoms s =
     (if s = ''null'' then Some JNull
      else if s = ''true'' then Some (JBool True)
      else if s = ''false'' then Some (JBool False)
      else if s = ''{}'' then Some (JObj [])
      else if s = ''[]'' then Some (JArr [])
      else None)"

text \<open>Example selections and failures.\<close>

definition textSelection :: SelectionData where
  "textSelection = \<lparr>type_sel = Text_sel, content = ''neural network'', id_sel = 1700000000001\<rparr>"

definition imageSelection :: SelectionData where
  "imageSelection =
     \<lparr>type_sel = Image_sel, content = ''data:image/png;base64,iVBORw0KGgo='',
      id_sel = 1700000000002\<rparr>"

definition tooManyRequests :: error where
  "tooManyRequests = \<lparr>message = Some ''Too Many Requests'', status = Some 429\<rparr>"

text \<open>Two runs that overlap, and a deep dive.\<close>

definition exampleRun :: "pipeline_event list" where
  "exampleRun =
     [Arrived textSelection 100, Arrived imageSelection 200,
      Failed (id_sel imageSelection) quotaError,
      Succeeded (id_sel textSelection) (JStr ''neural network'') (JStr ''translated''),
      DeepDived (id_sel textSelection) ''explained'' []]"

section \<open>Properties of the retry helper\<close>

lemma sum_list_backoff: "sum_list (backoff delay n) = delay * (2 ^ n - 1)"
  by (induction n arbitrary: delay) (simp_all add: algebra_simps)

lemma geometric_sum: "(\<Sum>i<n. (2::int) ^ i) = 2 ^ n - 1"
  by (induction n) simp_all

lemma sum_list_backoff_geometric: "sum_list (backoff delay n) = delay * (\<Sum>i<n. 2 ^ i)"
  by (simp only: sum_list_backoff geometric_sum)

lemma length_backoff: "length (backoff delay n) = n"
  by (induction n arbitrary: delay) simp_all

lemma failsThenSucceeds_failsFirst:
  "failsThenSucceeds operation k w v \<Longrightarrow> n \<le> k \<Longrightarrow> failsFirst operation n w"
proof (induction n arbitrary: k w)
  case 0
  show ?case by simp
next
  case (Suc n)
  then obtain k' where k: "k = Suc k'" by (cases k) auto
  with Suc.prems show ?case
    by (auto split: sum.splits intro: Suc.IH)
qed

lemma retryOperation_resolves:
  "failsThenSucceeds operation k w v \<Longrightarrow> int k \<le> retries \<Longrightarrow>
     fst (retryOperation operation retries delay w) = Inr v \<and>
     waits (fst (snd (retryOperation operation retries delay w))) = backoff delay k \<and>
     invocations (fst (snd (retryOperation operation retries delay w))) = Suc k"
proof (induction k arbitrary: w retries delay)
  case 0
  then show ?case
    by (cases "operation w") (simp add: retryOperation.simps [of operation retries delay w])
next
  case (Suc k)
  obtain r w' where ow: "operation w = (r, w')" by (cases "operation w")
  with Suc.prems(1) obtain err where r: "r = Inl err" and q: "isQuotaError err"
    and rest: "failsThenSucceeds operation k w' v"
    by (auto split: sum.splits)
  from Suc.prems(2) have pos: "0 < retries" and le: "int k \<le> retries - 1" by simp_all
  note IH = Suc.IH [OF rest le, of "delay * 2"]
  show ?case
    using IH ow r q pos
    by (simp add: retryOperation.simps [of operation retries delay w] case_prod_beta)
qed

lemma retryOperation_exhausts:
  "failsFirst operation (Suc n) w \<Longrightarrow> retries = int n \<Longrightarrow>
     fst (retryOperation operation retries delay w) = outcomeAt operation n w \<and>
     isl (outcomeAt operation n w) \<and> isQuotaError (projl (outcomeAt operation n w)) \<and>
     waits (fst (snd (retryOperation operation retries delay w))) = backoff delay n \<and>
     invocations (fst (snd (retryOperation operation retries delay w))) = Suc n"
proof (induction n arbitrary: w retries delay)
  case 0
  obtain r w' where ow: "operation w = (r, w')" by (cases "operation w")
  with "0.prems" show ?case
    by (auto simp: retryOperation.simps [of operation 0 delay w] outcomeAt_def
             split: sum.splits)
next
  case (Suc n)
  obtain r w' where ow: "operation w = (r, w')" by (cases "operation w")
  with Suc.prems(1) obtain err where r: "r = Inl err" and q: "isQuotaError err"
    and rest: "failsFirst operation (Suc n) w'"
    by (auto split: sum.splits)
  from Suc.prems(2) have pos: "0 < retries" and eq: "retries - 1 = int n" by simp_all
  note IH = Suc.IH [OF rest eq, of "delay * 2"]
  show ?case
    using IH ow r q pos
    by (simp add: retryOperation.simps [of operation retries delay w] outcomeAt_def
             case_prod_beta)
qed

lemma retried_isQuotaError:
  "list_all isQuotaError (retried (fst (snd (retryOperation operation retries delay w))))"
proof (induction operation retries delay w rule: retryOperation.induct)
  case (1 operation retries delay w)
  obtain r w' where ow: "operation w = (r, w')" by (cases "operation w")
  show ?case
  proof (cases r)
    case (Inr v)
    with ow show ?thesis
      by (simp add: retryOperation.simps [of operation retries delay w])
  next
    case (Inl err)
    show ?thesis
    proof (cases "0 < retries \<and> isQuotaError err")
      case True
      with "1.IH" [of r w' err] ow Inl show ?thesis
        by (simp add: retryOperation.simps [of operation retries delay w] case_prod_beta)
    next
      case False
      with ow Inl show ?thesis
        by (auto simp: retryOperation.simps [of operation retries delay w])
    qed
  qed
qed

text \<open>
  Claim C1, as amended. \<^verbatim>\<open>retryOperation(operation)\<close> runs with the defaults
  \<^verbatim>\<open>retries = 3\<close>, \<^verbatim>\<open>delay = 2000\<close>. If the operation rejects with a quota error exactly
  \<open>k\<close> times and then resolves with \<open>v\<close>, then for \<open>k \<le> 3\<close> the call resolves with \<open>v\<close>
  after the waits 2000, 4000, ... (\<open>k\<close> of them), in total
  \<open>2000 * (2^0 + ... + 2^(k-1))\<close>; for
  \<open>3 < k\<close> it rejects with the quota error of the fourth invocation (the last one made)
  after exactly the three waits 2000, 4000, 8000. The parameter counts retries, not
  attempts: three retries are four invocations, so the boundary case \<open>k = 3\<close> resolves.
\<close>

theorem retryOperation_backoff:
  assumes "failsThenSucceeds operation k w v"
  shows "(k \<le> 3 \<longrightarrow>
            fst (retryOperation operation 3 2000 w) = Inr v \<and>
            waits (fst (snd (retryOperation operation 3 2000 w))) = backoff 2000 k \<and>
            sum_list (waits (fst (snd (retryOperation operation 3 2000 w)))) =
              2000 * (\<Sum>i<k. 2 ^ i)) \<and>
         (3 < k \<longrightarrow>
            fst (retryOperation operation 3 2000 w) = outcomeAt operation 3 w \<and>
            isl (outcomeAt operation 3 w) \<and>
            isQuotaError (projl (outcomeAt operation 3 w)) \<and>
            waits (fst (snd (retryOperation operation 3 2000 w))) = [2000, 4000, 8000])"
proof (intro conjI impI)
  assume le: "k \<le> 3"
  then have "int k \<le> 3" by simp
  note r = retryOperation_resolves [OF assms this, of 2000]
  from r show "fst (retryOperation operation 3 2000 w) = Inr v" by simp
  from r show "waits (fst (snd (retryOperation operation 3 2000 w))) = backoff 2000 k" by simp
  from r show "sum_list (waits (fst (snd (retryOperation operation 3 2000 w)))) =
      2000 * (\<Sum>i<k. 2 ^ i)"
    by (simp only: sum_list_backoff_geometric)
next
  assume "3 < k"
  then have "Suc 3 \<le> k" by simp
  from failsThenSucceeds_failsFirst [OF assms this]
  have "failsFirst operation (Suc 3) w" .
  note e = retryOperation_exhausts [OF this, of 3 2000]
  from e show "fst (retryOperation operation 3 2000 w) = outcomeAt operation 3 w" by simp
  from e show "isl (outcomeAt operation 3 w)" by simp
  from e show "isQuotaError (projl (outcomeAt operation 3 w))" by simp
  have "backoff 2000 3 = [2000, 4000, 8000]" by (simp add: numeral_3_eq_3)
  with e show "waits (fst (snd (retryOperation operation 3 2000 w))) = [2000, 4000, 8000]" by simp
qed

theorem retryOperation_backoff_witness:
  "failsThenSucceeds (failsTimes 2) 2 0 ''ok'' \<and> (2::nat) \<le> 3 \<and>
   fst (retryOperation (failsTimes 2) 3 2000 0) = Inr ''ok'' \<and>
   sum_list (waits (fst (snd (retryOperation (failsTimes 2) 3 2000 0)))) = 6000 \<and>
   failsThenSucceeds (failsTimes 5) 5 0 ''ok'' \<and> (3::nat) < 5 \<and>
   fst (retryOperation (failsTimes 5) 3 2000 0) = Inl quotaError \<and>
   waits (fst (snd (retryOperation (failsTimes 5) 3 2000 0))) = [2000, 4000, 8000]"
proof -
  have h2: "failsThenSucceeds (failsTimes 2) 2 0 ''ok''" by code_simp
  have h5: "failsThenSucceeds (failsTimes 5) 5 0 ''ok''" by code_simp
  have o: "outcomeAt (failsTimes 5) 3 0 = Inl quotaError" by code_simp
  have b: "backoff 2000 2 = [2000, 4000]" by code_simp
  from retryOperation_backoff [OF h2] retryOperation_backoff [OF h5] h2 h5 o b
  show ?thesis by simp
qed

text \<open>
  Claim C1 as stated puts \<open>k = maxRetries\<close> on the rejecting side. An operation that
  fails three times and then succeeds is invoked a fourth time after the third wait, and
  the call resolves.
\<close>

theorem retryOperation_backoff_counterexample:
  "failsThenSucceeds (failsTimes 3) 3 0 ''ok'' \<and>
   fst (retryOperation (failsTimes 3) 3 2000 0) = Inr ''ok'' \<and>
   waits (fst (snd (retryOperation (failsTimes 3) 3 2000 0))) = [2000, 4000, 8000]"
  by code_simp

text \<open>
  Claim C2. An operation that rejects with a failure that is not a quota error makes
  \<^verbatim>\<open>retryOperation\<close> reject with that failure at once: the operation was invoked once and
  nothing was waited for. A failure is a quota error exactly when its status is 429 or
  its message contains one of the markers \<^verbatim>\<open>429\<close>, \<^verbatim>\<open>quota\<close>, \<^verbatim>\<open>exhausted\<close>. Every
  failure that was followed by a wait and another invocation is a quota error.
\<close>

theorem retryOperation_terminal:
  "(operation w = (Inl err, w') \<and> \<not> isQuotaError err \<longrightarrow>
      retryOperation operation retries delay w = (Inl err, [Invoked (Inl err)], w')) \<and>
   (isQuotaError err \<longleftrightarrow>
      status err = Some 429 \<or>
      (\<exists>m. message err = Some m \<and>
           (str_includes m ''429'' \<or> str_includes m ''quota'' \<or> str_includes m ''exhausted''))) \<and>
   list_all isQuotaError (retried (fst (snd (retryOperation operation retries delay w))))"
proof (intro conjI impI)
  assume "operation w = (Inl err, w') \<and> \<not> isQuotaError err"
  then show "retryOperation operation retries delay w = (Inl err, [Invoked (Inl err)], w')"
    by (simp add: retryOperation.simps [of operation retries delay w])
next
  show "isQuotaError err \<longleftrightarrow>
      status err = Some 429 \<or>
      (\<exists>m. message err = Some m \<and>
           (str_includes m ''429'' \<or> str_includes m ''quota'' \<or> str_includes m ''exhausted''))"
    by (auto simp: isQuotaError_def message_includes_def split: option.splits)
next
  show "list_all isQuotaError (retried (fst (snd (retryOperation operation retries delay w))))"
    by (rule retried_isQuotaError)
qed

theorem retryOperation_terminal_witness:
  "(alwaysFails badRequest :: (string, nat) operation) 0 = (Inl badRequest, 1) \<and>
   \<not> isQuotaError badRequest \<and>
   retryOperation (alwaysFails badRequest :: (string, nat) operation) 3 2000 0 =
     (Inl badRequest, [Invoked (Inl badRequest)], 1)"
proof -
  let ?op = "alwaysFails badRequest :: (string, nat) operation"
  have a: "?op 0 = (Inl badRequest, 1)" by (simp add: alwaysFails_def)
  have b: "\<not> isQuotaError badRequest" by code_simp
  from retryOperation_terminal [of ?op 0 badRequest 1 3 2000] a b
  show ?thesis by simp
qed

section \<open>Properties of the box capture\<close>







section \<open>Properties of the history\<close>

lemma map_id_res_updateById:
  "(\<And>item. id_res (upd item) = id_res item) \<Longrightarrow> map id_res (updateById i upd h) = map id_res h"
  by (induction h) (simp_all add: updateById_def)

lemma updateById_nth:
  "n < length h \<Longrightarrow> id_res (h ! n) \<noteq> i \<Longrightarrow> updateById i upd h ! n = h ! n"
  by (simp add: updateById_def)

lemma updateById_absent: "i \<notin> set (map id_res h) \<Longrightarrow> updateById i upd h = h"
  by (induction h) (simp_all add: updateById_def)

lemma arrive_ids: "map id_res (history (arrive sd ts st)) = id_sel sd # map id_res (history st)"
  by (simp add: arrive_def newEntry_def)

lemma succeed_ids: "map id_res (history (succeed i a b st)) = map id_res (history st)"
  by (simp add: succeed_def map_id_res_updateById)

lemma fail_ids: "map id_res (history (fail i e st)) = map id_res (history st)"
  by (simp add: fail_def map_id_res_updateById)

lemma deepDived_ids: "map id_res (history (deepDived i expl sources st)) = map id_res (history st)"
  by (simp add: deepDived_def map_id_res_updateById)

lemma runPipeline_ids:
  "map id_res (history (runPipeline evs st)) = rev (arrivedIds evs) @ map id_res (history st)"
proof (induction evs arbitrary: st)
  case Nil
  show ?case by simp
next
  case (Cons ev evs)
  show ?case
    by (cases ev) (simp_all add: Cons.IH arrive_ids succeed_ids fail_ids deepDived_ids)
qed

lemma distinct_one_record:
  "distinct (map f h) \<Longrightarrow> i \<in> set (map f h) \<Longrightarrow> length (filter (\<lambda>item. f item = i) h) = 1"
proof (induction h)
  case Nil
  then show ?case by simp
next
  case (Cons a h)
  show ?case
  proof (cases "f a = i")
    case True
    with Cons.prems(1) have "i \<notin> f ` set h" by auto
    then have "filter (\<lambda>item. f item = i) h = []" by (auto simp: filter_empty_conv)
    with True show ?thesis by simp
  next
    case False
    with Cons show ?thesis by auto
  qed
qed

lemma applyEvent_update_ids:
  "\<not> isArrival ev \<Longrightarrow> map id_res (history (applyEvent ev st)) = map id_res (history st)"
  by (cases ev) (simp_all add: succeed_ids fail_ids deepDived_ids)

lemma applyEvent_update_nth:
  "\<not> isArrival ev \<Longrightarrow> n < length (history st) \<Longrightarrow> id_res (history st ! n) \<noteq> eventId ev \<Longrightarrow>
     history (applyEvent ev st) ! n = history st ! n"
  by (cases ev) (simp_all add: succeed_def fail_def deepDived_def updateById_nth)

text \<open>
  Claim C4. Let selections with pairwise distinct ids arrive, none of them an id
  already in the history, while runs settle and deep dives return in any order in
  between. Afterwards the ids of the history are the arrived ids, newest first, followed
  by the ids that were there before, and each arrived id has exactly one record. An
  arrival puts one record on top; an update with a result, a failure or an explanation
  leaves the sequence of ids as it is and leaves every record with another id untouched.
\<close>

theorem history_one_record_per_id:
  "(distinct (arrivedIds evs) \<and> distinct (map id_res (history st)) \<and>
    set (arrivedIds evs) \<inter> set (map id_res (history st)) = {} \<longrightarrow>
      map id_res (history (runPipeline evs st)) = rev (arrivedIds evs) @ map id_res (history st) \<and>
      distinct (map id_res (history (runPipeline evs st))) \<and>
      (\<forall>i \<in> set (arrivedIds evs).
         length (filter (\<lambda>item. id_res item = i) (history (runPipeline evs st))) = 1)) \<and>
   history (applyEvent (Arrived selectionData ts) st') = newEntry selectionData ts # history st' \<and>
   (\<not> isArrival ev \<longrightarrow>
      map id_res (history (applyEvent ev st')) = map id_res (history st') \<and>
      (\<forall>n < length (history st').
         id_res (history st' ! n) \<noteq> eventId ev \<longrightarrow>
           history (applyEvent ev st') ! n = history st' ! n))"
proof (intro conjI impI allI)
  assume a: "distinct (arrivedIds evs) \<and> distinct (map id_res (history st)) \<and>
    set (arrivedIds evs) \<inter> set (map id_res (history st)) = {}"
  let ?h = "history (runPipeline evs st)"
  show ids: "map id_res ?h = rev (arrivedIds evs) @ map id_res (history st)"
    by (rule runPipeline_ids)
  from a show d: "distinct (map id_res ?h)"
    unfolding ids by auto
  show "\<forall>i \<in> set (arrivedIds evs). length (filter (\<lambda>item. id_res item = i) ?h) = 1"
  proof
    fix i assume "i \<in> set (arrivedIds evs)"
    then have "i \<in> set (map id_res ?h)" unfolding ids by simp
    with d show "length (filter (\<lambda>item. id_res item = i) ?h) = 1"
      by (rule distinct_one_record)
  qed
next
  show "history (applyEvent (Arrived selectionData ts) st') = newEntry selectionData ts # history st'"
    by (simp add: arrive_def)
next
  assume "\<not> isArrival ev"
  then show "map id_res (history (applyEvent ev st')) = map id_res (history st')"
    by (rule applyEvent_update_ids)
next
  fix n
  assume "\<not> isArrival ev" and "n < length (history st')" and "id_res (history st' ! n) \<noteq> eventId ev"
  then show "history (applyEvent ev st') ! n = history st' ! n"
    by (rule applyEvent_update_nth)
qed

theorem history_one_record_per_id_witness:
  "distinct (arrivedIds exampleRun) \<and> distinct (map id_res (history emptyPanel)) \<and>
   set (arrivedIds exampleRun) \<inter> set (map id_res (history emptyPanel)) = {} \<and>
   map id_res (history (runPipeline exampleRun emptyPanel)) = [1700000000002, 1700000000001] \<and>
   length (filter (\<lambda>item. id_res item = 1700000000001) (history (runPipeline exampleRun emptyPanel))) = 1 \<and>
   \<not> isArrival (Failed 1700000000002 quotaError) \<and>
   map id_res (history (applyEvent (Failed 1700000000002 quotaError)
        (runPipeline (take 2 exampleRun) emptyPanel))) = [1700000000002, 1700000000001] \<and>
   1 < length (history (runPipeline (take 2 exampleRun) emptyPanel)) \<and>
   id_res (history (runPipeline (take 2 exampleRun) emptyPanel) ! 1) \<noteq>
     eventId (Failed 1700000000002 quotaError) \<and>
   history (applyEvent (Failed 1700000000002 quotaError) (runPipeline (take 2 exampleRun) emptyPanel)) ! 1 =
     newEntry textSelection 100"
proof -
  have ids: "arrivedIds exampleRun = [1700000000001, 1700000000002]"
    by (simp add: exampleRun_def textSelection_def imageSelection_def)
  have e: "history emptyPanel = []" by (simp add: emptyPanel_def)
  have h2: "history (runPipeline (take 2 exampleRun) emptyPanel) =
      [newEntry imageSelection 200, newEntry textSelection 100]"
    by (simp add: exampleRun_def arrive_def emptyPanel_def)
  have i2: "id_res (newEntry imageSelection 200) = 1700000000002"
    "id_res (newEntry textSelection 100) = 1700000000001"
    by (simp_all add: newEntry_def textSelection_def imageSelection_def)
  note t = history_one_record_per_id [where evs = exampleRun and st = emptyPanel
     and ev = "Failed 1700000000002 quotaError"
     and st' = "runPipeline (take 2 exampleRun) emptyPanel"]
  from t ids e h2 i2 show ?thesis by (simp add: nth_Cons')
qed

lemma commit_syncSteps: "commit (syncSteps API_KEY selectionData ts) st = arrive selectionData ts st"
  by (simp add: commit_def syncSteps_def arrive_def)

text \<open>
  The provider call of a run is the one for \<open>requestOf\<close>: the run depends on the
  provider through this request only.
\<close>

lemma callProvider_request:
  assumes "generateContent1 (requestOf selectionData) = generateContent2 (requestOf selectionData)"
  shows "callProvider JSON_parse API_KEY generateContent1 selectionData w =
         callProvider JSON_parse API_KEY generateContent2 selectionData w"
proof (cases "type_sel selectionData = Image_sel")
  case True
  with assms have "analyzeOperation JSON_parse generateContent1 (stripDataUrlPrefix (content selectionData)) =
      analyzeOperation JSON_parse generateContent2 (stripDataUrlPrefix (content selectionData))"
    by (intro ext) (simp add: analyzeOperation_def requestOf_def)
  with True show ?thesis
    by (simp add: callProvider_def analyzeImageRegion_def)
next
  case False
  with assms have "translateOperation generateContent1 (content selectionData) =
      translateOperation generateContent2 (content selectionData)"
    by (intro ext) (simp add: translateOperation_def requestOf_def)
  with False show ?thesis
    by (simp add: callProvider_def translateText_def)
qed

lemma runSync_syncSteps:
  "runSync (syncSteps API_KEY selectionData ts) (rendered st) =
     \<lparr>shown = st,
      queue = [SetActiveId (id_sel selectionData), SetLoading True,
               SetHistory (newEntry selectionData ts)],
      callsMade = (if API_KEY = [] then []
               else [(requestOf selectionData, history st,
                      [SetActiveId (id_sel selectionData), SetLoading True,
                       SetHistory (newEntry selectionData ts)])])\<rparr>"
  by (simp add: runSync_def syncSteps_def rendered_def)

lemma rerender_runSync:
  "shown (rerender (runSync (syncSteps API_KEY selectionData ts) (rendered st))) =
     arrive selectionData ts st"
  by (simp add: runSync_syncSteps rerender_def commit_def arrive_def)

text \<open>
  Claim C5, as amended. The synchronous part of \<^verbatim>\<open>processNewSelection\<close> leaves the
  rendered state as it was and queues three updates, the last of them the prepend of the
  placeholder entry. With an API key it then calls the provider, once: when that call is
  made the prepend is already queued, and the history still holds the old records only.
  When React renders next, the placeholder is on top of the history, and the update
  with the result or the failure of the call acts on that state. The entry has the id
  of the selection and an empty \<^verbatim>\<open>translatedText\<close>; its \<^verbatim>\<open>originalText\<close> is the selected
  text for a text selection and the placeholder \<^verbatim>\<open>Reading text from image...\<close> for an
  image selection.
\<close>

theorem pending_record:
  "shown (runSync (syncSteps API_KEY selectionData ts) (rendered st)) = st \<and>
   queue (runSync (syncSteps API_KEY selectionData ts) (rendered st)) =
     [SetActiveId (id_sel selectionData), SetLoading True, SetHistory (newEntry selectionData ts)] \<and>
   (API_KEY \<noteq> [] \<longrightarrow>
      callsMade (runSync (syncSteps API_KEY selectionData ts) (rendered st)) =
        [(requestOf selectionData, history st,
          [SetActiveId (id_sel selectionData), SetLoading True,
           SetHistory (newEntry selectionData ts)])]) \<and>
   history (shown (rerender (runSync (syncSteps API_KEY selectionData ts) (rendered st)))) =
     newEntry selectionData ts # history st \<and>
   fst (processNewSelection JSON_parse API_KEY generateContent selectionData ts (st, w)) =
     (case fst (callProvider JSON_parse API_KEY generateContent selectionData w) of
        Inr (resultOriginal, resultTranslated) \<Rightarrow>
          succeed (id_sel selectionData) resultOriginal resultTranslated
            (shown (rerender (runSync (syncSteps API_KEY selectionData ts) (rendered st))))
      | Inl e \<Rightarrow>
          fail (id_sel selectionData) e
            (shown (rerender (runSync (syncSteps API_KEY selectionData ts) (rendered st))))) \<and>
   translatedText (newEntry selectionData ts) = JStr '''' \<and>
   id_res (newEntry selectionData ts) = id_sel selectionData \<and>
   (type_sel selectionData = Text_sel \<longrightarrow>
      originalText (newEntry selectionData ts) = JStr (content selectionData)) \<and>
   (type_sel selectionData = Image_sel \<longrightarrow>
      originalText (newEntry selectionData ts) = JStr ''Reading text from image...'')"
proof (intro conjI impI)
  show "shown (runSync (syncSteps API_KEY selectionData ts) (rendered st)) = st"
    by (simp add: runSync_syncSteps)
next
  show "queue (runSync (syncSteps API_KEY selectionData ts) (rendered st)) =
     [SetActiveId (id_sel selectionData), SetLoading True, SetHistory (newEntry selectionData ts)]"
    by (simp add: runSync_syncSteps)
next
  assume "API_KEY \<noteq> []"
  then show "callsMade (runSync (syncSteps API_KEY selectionData ts) (rendered st)) =
        [(requestOf selectionData, history st,
          [SetActiveId (id_sel selectionData), SetLoading True,
           SetHistory (newEntry selectionData ts)])]"
    by (simp add: runSync_syncSteps)
next
  show "history (shown (rerender (runSync (syncSteps API_KEY selectionData ts) (rendered st)))) =
     newEntry selectionData ts # history st"
    by (simp add: rerender_runSync arrive_def)
next
  show "fst (processNewSelection JSON_parse API_KEY generateContent selectionData ts (st, w)) =
     (case fst (callProvider JSON_parse API_KEY generateContent selectionData w) of
        Inr (resultOriginal, resultTranslated) \<Rightarrow>
          succeed (id_sel selectionData) resultOriginal resultTranslated
            (shown (rerender (runSync (syncSteps API_KEY selectionData ts) (rendered st))))
      | Inl e \<Rightarrow>
          fail (id_sel selectionData) e
            (shown (rerender (runSync (syncSteps API_KEY selectionData ts) (rendered st)))))"
    by (simp add: processNewSelection_def rerender_runSync Let_def split: prod.splits sum.splits)
qed (simp_all add: newEntry_def)

theorem pending_record_witness:
  "''key'' \<noteq> [] \<and>
   callsMade (runSync (syncSteps ''key'' textSelection 100) (rendered emptyPanel)) =
     [(Translate ''neural network'', [],
       [SetActiveId 1700000000001, SetLoading True, SetHistory (newEntry textSelection 100)])] \<and>
   history (shown (rerender (runSync (syncSteps ''key'' textSelection 100) (rendered emptyPanel)))) =
     [newEntry textSelection 100] \<and>
   type_sel textSelection = Text_sel \<and>
   originalText (newEntry textSelection 100) = JStr ''neural network'' \<and>
   translatedText (newEntry textSelection 100) = JStr '''' \<and>
   type_sel imageSelection = Image_sel \<and>
   originalText (newEntry imageSelection 200) = JStr ''Reading text from image...'' \<and>
   translatedText (newEntry imageSelection 200) = JStr ''''"
proof -
  have a: "type_sel textSelection = Text_sel" "content textSelection = ''neural network''"
    "id_sel textSelection = 1700000000001"
    by (simp_all add: textSelection_def)
  have b: "type_sel imageSelection = Image_sel" by (simp add: imageSelection_def)
  have k: "''key'' \<noteq> []" by simp
  have r1: "requestOf textSelection = Translate ''neural network''"
    by (simp add: requestOf_def textSelection_def)
  have e: "history emptyPanel = []" by (simp add: emptyPanel_def)
  note t1 = pending_record [where API_KEY = "''key''" and selectionData = textSelection
    and ts = 100 and st = emptyPanel and JSON_parse = JSON_parse_atoms
    and generateContent = "alwaysAnswers \<lparr>text_resp = Some ''ok''\<rparr>" and w = 0]
  note t2 = pending_record [where API_KEY = "''key''" and selectionData = imageSelection
    and ts = 200 and st = emptyPanel and JSON_parse = JSON_parse_atoms
    and generateContent = "alwaysAnswers \<lparr>text_resp = Some ''ok''\<rparr>" and w = 0]
  from t1 t2 a b k r1 e show ?thesis by simp
qed

text \<open>
  Claim C5 as stated names another placeholder, \<^verbatim>\<open>extracting\<close> followed by the
  ellipsis character U+2026 (bytes E2 80 A6); the entry of an image selection does not
  hold it. And the record is not in the store before the external call is made: at
  the call of the provider the history is still the old one, here empty, with the
  prepend in the queue.
\<close>

theorem pending_record_counterexample:
  "type_sel imageSelection = Image_sel \<and>
   originalText (hd (history (arrive imageSelection 200 emptyPanel))) \<noteq>
     JStr (''extracting'' @ [CHR 0xE2, CHR 0x80, CHR 0xA6]) \<and>
   callsMade (runSync (syncSteps ''key'' imageSelection 200) (rendered emptyPanel)) =
     [(AnalyzeImage ''iVBORw0KGgo='', [],
       [SetActiveId 1700000000002, SetLoading True, SetHistory (newEntry imageSelection 200)])]"
proof -
  have r2: "requestOf imageSelection = AnalyzeImage ''iVBORw0KGgo=''"
    by code_simp
  have i: "id_sel imageSelection = 1700000000002" by (simp add: imageSelection_def)
  have e: "history emptyPanel = []" by (simp add: emptyPanel_def)
  have c: "callsMade (runSync (syncSteps ''key'' imageSelection 200) (rendered emptyPanel)) =
     [(AnalyzeImage ''iVBORw0KGgo='', [],
       [SetActiveId 1700000000002, SetLoading True, SetHistory (newEntry imageSelection 200)])]"
    by (simp add: runSync_syncSteps r2 i e)
  then show ?thesis
    by (simp add: arrive_def newEntry_def imageSelection_def)
qed

text \<open>
  Claim C6. An update by an id that no record of the history has returns the history as
  it was: the same records in the same order, none added. This holds for each of the
  three updates of the panel (result, failure, explanation).
\<close>

theorem updateById_absent_noop:
  "i \<notin> set (map id_res h) \<longrightarrow>
     updateById i upd h = h \<and>
     (history st = h \<longrightarrow>
        history (succeed i resultOriginal resultTranslated st) = h \<and>
        history (fail i e st) = h \<and>
        history (deepDived i expl sources st) = h)"
  by (simp add: updateById_absent succeed_def fail_def deepDived_def)

theorem updateById_absent_noop_witness:
  "1700000000002 \<notin> set (map id_res (history (arrive textSelection 100 emptyPanel))) \<and>
   history (succeed 1700000000002 (JStr ''a'') (JStr ''b'') (arrive textSelection 100 emptyPanel)) =
     [newEntry textSelection 100] \<and>
   history (fail 1700000000002 quotaError (arrive textSelection 100 emptyPanel)) =
     [newEntry textSelection 100] \<and>
   history (deepDived 1700000000002 ''explained'' [] (arrive textSelection 100 emptyPanel)) =
     [newEntry textSelection 100]"
proof -
  have h: "history (arrive textSelection 100 emptyPanel) = [newEntry textSelection 100]"
    by (simp add: arrive_def emptyPanel_def)
  have n: "1700000000002 \<notin> set (map id_res [newEntry textSelection 100])"
    by (simp add: newEntry_def textSelection_def)
  from updateById_absent_noop [of 1700000000002 "[newEntry textSelection 100]" _
         "arrive textSelection 100 emptyPanel" "JStr ''a''" "JStr ''b''" quotaError "''explained''" "[]"]
       h n
  show ?thesis by simp
qed

section \<open>Properties of the provider services\<close>

lemma retryOperation_first_success:
  "operation w = (Inr v, w') \<Longrightarrow> retryOperation operation retries delay w = (Inr v, [Invoked (Inr v)], w')"
  by (simp add: retryOperation.simps [of operation retries delay w])

text \<open>
  Claim C10. With an API key, when the provider call of \<^verbatim>\<open>translateText\<close> resolves with
  a response whose text is absent or empty, the retried operation resolves with the
  string \<^verbatim>\<open>Translation failed.\<close>, and so does \<^verbatim>\<open>translateText\<close>: nothing is thrown.
  A run of the pipeline for a text selection then fills the record through the success
  update, with that string as its \<^verbatim>\<open>translatedText\<close>.
\<close>

theorem translateText_empty_response:
  "API_KEY \<noteq> [] \<and> generateContent (Translate txt) w = (Inr resp, w') \<and>
   (text_resp resp = None \<or> text_resp resp = Some []) \<longrightarrow>
     translateOperation generateContent txt w = (Inr ''Translation failed.'', w') \<and>
     translateText API_KEY generateContent txt w =
       (Inr ''Translation failed.'', [Invoked (Inr ''Translation failed.'')], w') \<and>
     (type_sel selectionData = Text_sel \<and> content selectionData = txt \<longrightarrow>
        fst (processNewSelection JSON_parse API_KEY generateContent selectionData ts (st, w)) =
          succeed (id_sel selectionData) (JStr txt) (JStr ''Translation failed.'')
            (arrive selectionData ts st) \<and>
        translatedText (hd (history
          (fst (processNewSelection JSON_parse API_KEY generateContent selectionData ts (st, w))))) =
          JStr ''Translation failed.'')"
proof (intro impI)
  assume a: "API_KEY \<noteq> [] \<and> generateContent (Translate txt) w = (Inr resp, w') \<and>
   (text_resp resp = None \<or> text_resp resp = Some [])"
  then have op: "translateOperation generateContent txt w = (Inr ''Translation failed.'', w')"
    by (auto simp: translateOperation_def)
  have t: "translateText API_KEY generateContent txt w =
       (Inr ''Translation failed.'', [Invoked (Inr ''Translation failed.'')], w')"
    using a
    by (simp add: translateText_def
          retryOperation_first_success [of "translateOperation generateContent txt" w, OF op])
  have p: "type_sel selectionData = Text_sel \<and> content selectionData = txt \<longrightarrow>
        fst (processNewSelection JSON_parse API_KEY generateContent selectionData ts (st, w)) =
          succeed (id_sel selectionData) (JStr txt) (JStr ''Translation failed.'')
            (arrive selectionData ts st)"
    using t by (simp add: processNewSelection_def callProvider_def Let_def)
  have h: "translatedText (hd (history (succeed (id_sel selectionData) (JStr txt)
            (JStr ''Translation failed.'') (arrive selectionData ts st)))) =
          JStr ''Translation failed.''"
    by (simp add: succeed_def arrive_def updateById_def newEntry_def)
  from op t p h show "translateOperation generateContent txt w = (Inr ''Translation failed.'', w') \<and>
     translateText API_KEY generateContent txt w =
       (Inr ''Translation failed.'', [Invoked (Inr ''Translation failed.'')], w') \<and>
     (type_sel selectionData = Text_sel \<and> content selectionData = txt \<longrightarrow>
        fst (processNewSelection JSON_parse API_KEY generateContent selectionData ts (st, w)) =
          succeed (id_sel selectionData) (JStr txt) (JStr ''Translation failed.'')
            (arrive selectionData ts st) \<and>
        translatedText (hd (history
          (fst (processNewSelection JSON_parse API_KEY generateContent selectionData ts (st, w))))) =
          JStr ''Translation failed.'')"
    by simp
qed

theorem translateText_empty_response_witness:
  "''key'' \<noteq> [] \<and>
   alwaysAnswers \<lparr>text_resp = Some ''''\<rparr> (Translate ''neural network'') 0 =
     (Inr \<lparr>text_resp = Some ''''\<rparr>, 1) \<and>
   translateText ''key'' (alwaysAnswers \<lparr>text_resp = Some ''''\<rparr>) ''neural network'' 0 =
     (Inr ''Translation failed.'', [Invoked (Inr ''Translation failed.'')], 1) \<and>
   type_sel textSelection = Text_sel \<and> content textSelection = ''neural network'' \<and>
   translatedText (hd (history (fst (processNewSelection JSON_parse_atoms ''key''
       (alwaysAnswers \<lparr>text_resp = Some ''''\<rparr>) textSelection 100 (emptyPanel, 0))))) =
     JStr ''Translation failed.''"
proof -
  have a: "alwaysAnswers \<lparr>text_resp = Some ''''\<rparr> (Translate ''neural network'') 0 =
     (Inr \<lparr>text_resp = Some ''''\<rparr>, 1)"
    by (simp add: alwaysAnswers_def)
  have b: "type_sel textSelection = Text_sel" "content textSelection = ''neural network''"
    by (simp_all add: textSelection_def)
  have c: "text_resp \<lparr>text_resp = Some ''''\<rparr> = Some []" by simp
  have k: "''key'' \<noteq> []" by simp
  from translateText_empty_response [of "''key''" "alwaysAnswers \<lparr>text_resp = Some ''''\<rparr>"
         "''neural network''" 0 "\<lparr>text_resp = Some ''''\<rparr>" 1 textSelection JSON_parse_atoms 100 emptyPanel]
       a b c k
  show ?thesis by blast
qed

text \<open>
  Claim C9, as amended. With an API key, when the provider call of \<^verbatim>\<open>analyzeImageRegion\<close> resolves
  with a non-empty text on which \<^verbatim>\<open>JSON.parse\<close> (after \<^verbatim>\<open>cleanJson\<close>) throws, the
  retried operation resolves, and so does \<^verbatim>\<open>analyzeImageRegion\<close>: the result has the raw
  response text as \<^verbatim>\<open>translatedText\<close> and \<^verbatim>\<open>OCR Output (Raw)\<close> as \<^verbatim>\<open>originalText\<close>.
\<close>

theorem analyzeImageRegion_parse_fallback:
  "API_KEY \<noteq> [] \<and>
   generateContent (AnalyzeImage (stripDataUrlPrefix base64Image)) w = (Inr resp, w') \<and>
   text_resp resp = Some t \<and> t \<noteq> [] \<and> JSON_parse (cleanJson t) = None \<longrightarrow>
     analyzeOperation JSON_parse generateContent (stripDataUrlPrefix base64Image) w =
       (Inr (rawOcrOutput t), w') \<and>
     analyzeImageRegion JSON_parse API_KEY generateContent base64Image w =
       (Inr (rawOcrOutput t), [Invoked (Inr (rawOcrOutput t))], w') \<and>
     getProp (rawOcrOutput t) ''translatedText'' = Inr (JStr t) \<and>
     getProp (rawOcrOutput t) ''originalText'' = Inr (JStr ''OCR Output (Raw)'')"
proof (intro impI)
  assume a: "API_KEY \<noteq> [] \<and>
   generateContent (AnalyzeImage (stripDataUrlPrefix base64Image)) w = (Inr resp, w') \<and>
   text_resp resp = Some t \<and> t \<noteq> [] \<and> JSON_parse (cleanJson t) = None"
  then have op: "analyzeOperation JSON_parse generateContent (stripDataUrlPrefix base64Image) w =
      (Inr (rawOcrOutput t), w')"
    by (simp add: analyzeOperation_def)
  have "analyzeImageRegion JSON_parse API_KEY generateContent base64Image w =
       (Inr (rawOcrOutput t), [Invoked (Inr (rawOcrOutput t))], w')"
    using a
    by (simp add: analyzeImageRegion_def
          retryOperation_first_success
            [of "analyzeOperation JSON_parse generateContent (stripDataUrlPrefix base64Image)" w, OF op])
  with op show "analyzeOperation JSON_parse generateContent (stripDataUrlPrefix base64Image) w =
       (Inr (rawOcrOutput t), w') \<and>
     analyzeImageRegion JSON_parse API_KEY generateContent base64Image w =
       (Inr (rawOcrOutput t), [Invoked (Inr (rawOcrOutput t))], w') \<and>
     getProp (rawOcrOutput t) ''translatedText'' = Inr (JStr t) \<and>
     getProp (rawOcrOutput t) ''originalText'' = Inr (JStr ''OCR Output (Raw)'')"
    by (simp add: rawOcrOutput_def)
qed

theorem analyzeImageRegion_parse_fallback_witness:
  "''key'' \<noteq> [] \<and>
   alwaysAnswers \<lparr>text_resp = Some ''A graph.''\<rparr> (AnalyzeImage (stripDataUrlPrefix (content imageSelection))) 0 =
     (Inr \<lparr>text_resp = Some ''A graph.''\<rparr>, 1) \<and>
   ''A graph.'' \<noteq> [] \<and> JSON_parse_atoms (cleanJson ''A graph.'') = None \<and>
   analyzeImageRegion JSON_parse_atoms ''key'' (alwaysAnswers \<lparr>text_resp = Some ''A graph.''\<rparr>)
       (content imageSelection) 0 =
     (Inr (rawOcrOutput ''A graph.''), [Invoked (Inr (rawOcrOutput ''A graph.''))], 1)"
proof -
  have a: "alwaysAnswers \<lparr>text_resp = Some ''A graph.''\<rparr>
       (AnalyzeImage (stripDataUrlPrefix (content imageSelection))) 0 =
     (Inr \<lparr>text_resp = Some ''A graph.''\<rparr>, 1)"
    by (simp add: alwaysAnswers_def)
  have b: "JSON_parse_atoms (cleanJson ''A graph.'') = None" by code_simp
  from analyzeImageRegion_parse_fallback [of "''key''" "alwaysAnswers \<lparr>text_resp = Some ''A graph.''\<rparr>"
         "content imageSelection" 0 "\<lparr>text_resp = Some ''A graph.''\<rparr>" 1 "''A graph.''" JSON_parse_atoms]
       a b
  show ?thesis by simp
qed

text \<open>
  Claim C9 as stated covers every response that is not the expected object. A response
  that \<^verbatim>\<open>JSON.parse\<close> accepts takes no fallback: for the text \<^verbatim>\<open>{}\<close> the empty object is
  returned and the record's texts become undefined, for \<^verbatim>\<open>null\<close> the panel fails on
  reading a property and the record shows the generic failure text.
\<close>

theorem analyzeImageRegion_parse_fallback_counterexample:
  "''{}'' \<noteq> [] \<and>
   analyzeImageRegion JSON_parse_atoms ''key'' (alwaysAnswers \<lparr>text_resp = Some ''{}''\<rparr>)
       (content imageSelection) 0 =
     (Inr (JObj []), [Invoked (Inr (JObj []))], 1) \<and>
   JObj [] \<noteq> rawOcrOutput ''{}'' \<and>
   getProp (JObj []) ''translatedText'' = Inr JUndefined \<and>
   translatedText (hd (history (fst (processNewSelection JSON_parse_atoms ''key''
       (alwaysAnswers \<lparr>text_resp = Some ''{}''\<rparr>) imageSelection 200 (emptyPanel, 0))))) =
     JUndefined \<and>
   analyzeImageRegion JSON_parse_atoms ''key'' (alwaysAnswers \<lparr>text_resp = Some ''null''\<rparr>)
       (content imageSelection) 0 =
     (Inr JNull, [Invoked (Inr JNull)], 1) \<and>
   translatedText (hd (history (fst (processNewSelection JSON_parse_atoms ''key''
       (alwaysAnswers \<lparr>text_resp = Some ''null''\<rparr>) imageSelection 200 (emptyPanel, 0))))) =
     JStr ''Translation failed. Please try again.''"
  by code_simp

text \<open>
  A text that \<^verbatim>\<open>JSON.parse\<close> accepts is returned as parsed, whatever its shape. After
  transient failures the services settle as their operation does.
\<close>

lemma analyzeImageRegion_parsed:
  "API_KEY \<noteq> [] \<Longrightarrow>
   generateContent (AnalyzeImage (stripDataUrlPrefix base64Image)) w = (Inr resp, w') \<Longrightarrow>
   text_resp resp = Some t \<Longrightarrow> t \<noteq> [] \<Longrightarrow> JSON_parse (cleanJson t) = Some v \<Longrightarrow>
     analyzeImageRegion JSON_parse API_KEY generateContent base64Image w = (Inr v, [Invoked (Inr v)], w')"
proof -
  assume a: "API_KEY \<noteq> []"
    "generateContent (AnalyzeImage (stripDataUrlPrefix base64Image)) w = (Inr resp, w')"
    "text_resp resp = Some t" "t \<noteq> []" "JSON_parse (cleanJson t) = Some v"
  then have op: "analyzeOperation JSON_parse generateContent (stripDataUrlPrefix base64Image) w = (Inr v, w')"
    by (simp add: analyzeOperation_def)
  show ?thesis
    using a
    by (simp add: analyzeImageRegion_def
          retryOperation_first_success
            [of "analyzeOperation JSON_parse generateContent (stripDataUrlPrefix base64Image)" w, OF op])
qed

lemma translateText_after_retries:
  "API_KEY \<noteq> [] \<Longrightarrow> failsThenSucceeds (translateOperation generateContent txt) k w v \<Longrightarrow>
   k \<le> 3 \<Longrightarrow> fst (translateText API_KEY generateContent txt w) = Inr v"
  using retryOperation_resolves [of "translateOperation generateContent txt" k w v 3 2000]
  by (simp add: translateText_def)

lemma analyzeImageRegion_after_retries:
  "API_KEY \<noteq> [] \<Longrightarrow>
   failsThenSucceeds (analyzeOperation JSON_parse generateContent (stripDataUrlPrefix base64Image)) k w v \<Longrightarrow>
   k \<le> 3 \<Longrightarrow> fst (analyzeImageRegion JSON_parse API_KEY generateContent base64Image w) = Inr v"
  using retryOperation_resolves
    [of "analyzeOperation JSON_parse generateContent (stripDataUrlPrefix base64Image)" k w v 3 2000]
  by (simp add: analyzeImageRegion_def)

section \<open>Properties of the failure path\<close>

lemma fail_sentinel:
  "history (fail i e st) =
     map (\<lambda>item. if id_res item = i then item\<lparr>translatedText := JStr (errorMessage e)\<rparr> else item)
       (history st)"
  by (simp add: fail_def updateById_def)

lemma errorMessage_marker:
  "message e = Some m \<Longrightarrow> str_includes m ''quota'' \<Longrightarrow>
     errorMessage e = ''Usage limit reached. Please wait a moment and try again.''"
  by (simp add: errorMessage_def message_includes_def)

text \<open>
  Claim C7 fails on the code. \<^verbatim>\<open>retryOperation\<close> counts a failure with \<^verbatim>\<open>status === 429\<close>
  as a quota error and retries it, but the \<^verbatim>\<open>catch\<close> block of the panel looks at the
  message only. A provider that keeps rejecting with status 429 and the message
  \<^verbatim>\<open>Too Many Requests\<close> is retried three times (waits 2000, 4000, 8000, four calls),
  and the record then shows the generic failure text, not the usage-limit text.
\<close>

theorem status_429_generic_sentinel:
  "isQuotaError tooManyRequests \<and>
   processNewSelection JSON_parse_atoms ''key'' (\<lambda>req. alwaysFails tooManyRequests)
       textSelection 100 (emptyPanel, 0) =
     (\<lparr>history =
         [(newEntry textSelection 100)
            \<lparr>translatedText := JStr ''Translation failed. Please try again.''\<rparr>],
       loading = False, activeId = Some 1700000000001, deepDiveLoadingId = None\<rparr>,
      [2000, 4000, 8000], 4)"
  by code_simp

section \<open>Properties of the live session\<close>

lemma list_all_update_nth:
  assumes "list_all P xs" and "\<And>x. P x \<Longrightarrow> P (f x)"
  shows "list_all P (xs[i := f (xs ! i)])"
proof (cases "i < length xs")
  case True
  with assms(1) have "P (xs ! i)" by (simp add: list_all_length)
  then have "P (f (xs ! i))" by (rule assms(2))
  moreover have "set (xs[i := f (xs ! i)]) \<subseteq> insert (f (xs ! i)) (set xs)"
    by (rule set_update_subset_insert)
  ultimately show ?thesis
    using assms(1) by (auto simp: list_all_iff)
next
  case False
  then have "length xs \<le> i" by simp
  then have "xs[i := f (xs ! i)] = xs" by (rule list_update_beyond)
  with assms(1) show ?thesis by simp
qed

lemma assistantStep_connectCalls:
  "list_all (\<lambda>c. connectCalls c = 1) (controllers a) \<Longrightarrow>
   list_all (\<lambda>c. connectCalls c = 1) (controllers (assistantStep ev a))"
proof (cases ev)
  case (EffectRun isOpen)
  assume "list_all (\<lambda>c. connectCalls c = 1) (controllers a)"
  with EffectRun show ?thesis
    by (simp add: effectRun_def onStatusChange_def connect_called_def newLiveSession_def)
next
  case (CleanupRun isOpen)
  assume "list_all (\<lambda>c. connectCalls c = 1) (controllers a)"
  with CleanupRun show ?thesis
    by (auto simp: cleanupRun_def disconnect_def split: option.splits
             intro!: list_all_update_nth)
next
  case (LiveResolved i handle)
  assume "list_all (\<lambda>c. connectCalls c = 1) (controllers a)"
  with LiveResolved show ?thesis
    by (auto simp: liveResolved_def onStatusChange_def connect_resolved_def
             intro!: list_all_update_nth)
next
  case (LiveRejected i)
  assume "list_all (\<lambda>c. connectCalls c = 1) (controllers a)"
  with LiveRejected show ?thesis
    by (auto simp: liveRejected_def onStatusChange_def connect_rejected_def
             intro!: list_all_update_nth)
qed

lemma runAssistant_connectCalls:
  "list_all (\<lambda>c. connectCalls c = 1) (controllers a) \<Longrightarrow>
   list_all (\<lambda>c. connectCalls c = 1) (controllers (runAssistant evs a))"
proof (induction evs arbitrary: a)
  case Nil
  then show ?case by simp
next
  case (Cons ev evs)
  from Cons.prems have "list_all (\<lambda>c. connectCalls c = 1) (controllers (assistantStep ev a))"
    by (rule assistantStep_connectCalls)
  then have "list_all (\<lambda>c. connectCalls c = 1)
      (controllers (runAssistant evs (assistantStep ev a)))"
    by (rule Cons.IH)
  then show ?case by simp
qed

lemma assistantStep_refValid: "refValid a \<Longrightarrow> refValid (assistantStep ev a)"
  by (cases ev)
     (auto simp: refValid_def effectRun_def cleanupRun_def liveResolved_def liveRejected_def
                 onStatusChange_def
           split: option.splits)

lemma runAssistant_refValid: "refValid a \<Longrightarrow> refValid (runAssistant evs a)"
  by (induction evs arbitrary: a) (simp_all add: assistantStep_refValid)

text \<open>
  Claim C8, as amended. \<^verbatim>\<open>connect()\<close> tests no state: every call reports
  \<^verbatim>\<open>Connecting...\<close> and asks the provider for one more session, and the handle it
  resolves with replaces the stored one. That a controller is connected once is the
  work of its caller: the effect of the assistant creates and connects a controller
  only while it holds none, so running the effect again while one is held changes
  nothing, and after any sequence of effects, cleanups and settled promises every
  controller the assistant created has had exactly one call of \<^verbatim>\<open>ai.live.connect\<close>.
\<close>

theorem connect_guarded_by_caller:
  "connectCalls (connect_called ls) = Suc (connectCalls ls) \<and>
   statusChanges (connect_called ls) = statusChanges ls @ [''Connecting...''] \<and>
   session (connect_resolved handle (connect_called ls)) = Some handle \<and>
   (liveSessionRef a \<noteq> None \<longrightarrow> effectRun isOpen a = a) \<and>
   list_all (\<lambda>c. connectCalls c = 1) (controllers (runAssistant evs initialAssistant)) \<and>
   refValid (runAssistant evs initialAssistant)"
proof -
  have "refValid initialAssistant" by (simp add: refValid_def initialAssistant_def)
  then have v: "refValid (runAssistant evs initialAssistant)" by (rule runAssistant_refValid)
  have "list_all (\<lambda>c. connectCalls c = 1) (controllers initialAssistant)"
    by (simp add: initialAssistant_def)
  then have "list_all (\<lambda>c. connectCalls c = 1) (controllers (runAssistant evs initialAssistant))"
    by (rule runAssistant_connectCalls)
  with v show ?thesis
    by (simp add: connect_called_def connect_resolved_def effectRun_def)
qed

theorem connect_guarded_by_caller_witness:
  "liveSessionRef (effectRun True initialAssistant) \<noteq> None \<and>
   effectRun True (effectRun True initialAssistant) = effectRun True initialAssistant \<and>
   controllers (runAssistant [EffectRun True, EffectRun True, LiveResolved 0 7] initialAssistant) =
     [\<lparr>session = Some 7, statusChanges = [''Connecting...'', ''Connected''], connectCalls = 1\<rparr>]"
proof -
  have r: "liveSessionRef (effectRun True initialAssistant) \<noteq> None"
    by (simp add: effectRun_def initialAssistant_def onStatusChange_def)
  have c: "controllers (runAssistant [EffectRun True, EffectRun True, LiveResolved 0 7] initialAssistant) =
     [\<lparr>session = Some 7, statusChanges = [''Connecting...'', ''Connected''], connectCalls = 1\<rparr>]"
    by (simp add: effectRun_def initialAssistant_def onStatusChange_def liveResolved_def
          connect_called_def connect_resolved_def newLiveSession_def)
  from connect_guarded_by_caller [of newLiveSession 7 "effectRun True initialAssistant" True
         "[EffectRun True, EffectRun True, LiveResolved 0 7]"] r c
  show ?thesis by simp
qed

text \<open>
  Claim C8 as stated makes a second \<^verbatim>\<open>connect()\<close> a no-op. On a connected controller
  the second call changes the state and opens a second session, whose handle then
  replaces the first; two calls while connecting open two sessions as well.
\<close>

theorem connect_twice_counterexample:
  "session (runSession [ConnectCalled, ConnectResolved 1] newLiveSession) = Some 1 \<and>
   sessionStep ConnectCalled (runSession [ConnectCalled, ConnectResolved 1] newLiveSession) \<noteq>
     runSession [ConnectCalled, ConnectResolved 1] newLiveSession \<and>
   connectCalls (runSession [ConnectCalled, ConnectResolved 1, ConnectCalled] newLiveSession) = 2 \<and>
   connectCalls (runSession [ConnectCalled, ConnectCalled] newLiveSession) = 2 \<and>
   runSession [ConnectCalled, ConnectResolved 1, ConnectCalled, ConnectResolved 2] newLiveSession =
     \<lparr>session = Some 2,
      statusChanges = [''Connecting...'', ''Connected'', ''Connecting...'', ''Connected''],
      connectCalls = 2\<rparr>"
  by (simp add: connect_called_def connect_resolved_def newLiveSession_def)

end
